theory Spec2Isabelle
  imports Complex_Main "HOL-Library.Multiset"
begin

section \<open>Strings and numbers of the host language\<close>

text \<open>
  Strings are lists of characters; the helpers below follow the JavaScript string methods
  the code calls, on ASCII text (characters above 127 are left alone by \<open>toLowerCase\<close>
  and are not white space). A string that is read from or written to a file stands for
  the bytes of its UTF-8 encoding. Numbers are exact rationals: the rounding of IEEE doubles is
  not modelled, and the one non-number the code can produce, the quotient \<open>0 / 0\<close>, is the
  value \<open>NaN\<close> of \<open>jsnum\<close>.
\<close>

definition lower_char :: "char \<Rightarrow> char" where
  "lower_char c =
     (case map_of (zip ''ABCDEFGHIJKLMNOPQRSTUVWXYZ'' ''abcdefghijklmnopqrstuvwxyz'') c of
        Some l \<Rightarrow> l
      | None \<Rightarrow> c)"

definition toLowerCase :: "string \<Rightarrow> string" where
  "toLowerCase s = map lower_char s"

definition is_space :: "char \<Rightarrow> bool" where
  "is_space c = (c \<in> set [CHR 0x09, CHR 0x0A, CHR 0x0B, CHR 0x0C, CHR 0x0D, CHR 0x20])"

definition trim :: "string \<Rightarrow> string" where
  "trim s = rev (dropWhile is_space (rev (dropWhile is_space s)))"

fun startsWith :: "string \<Rightarrow> string \<Rightarrow> bool" where
  "startsWith s [] = True"
| "startsWith [] (p # ps) = False"
| "startsWith (c # cs) (p # ps) = (c = p \<and> startsWith cs ps)"

fun str_includes :: "string \<Rightarrow> string \<Rightarrow> bool" where
  "str_includes [] sub = (sub = [])"
| "str_includes (c # cs) sub = (startsWith (c # cs) sub \<or> str_includes cs sub)"

fun join :: "string \<Rightarrow> string list \<Rightarrow> string" where
  "join sep [] = []"
| "join sep [x] = x"
| "join sep (x # y # ys) = x @ sep @ join sep (y # ys)"

fun split_lines :: "string \<Rightarrow> string list" where
  "split_lines [] = [] # []"
| "split_lines (c # cs) =
     (if c = CHR 0x0A then [] # split_lines cs
      else (case split_lines cs of l # ls \<Rightarrow> (c # l) # ls | [] \<Rightarrow> [c] # []))"

definition js_round :: "rat \<Rightarrow> int" where
  "js_round x = \<lfloor>x + 1 / 2\<rfloor>"

datatype jsnum = NaN | PosInf | Num rat

definition js_ratio :: "nat \<Rightarrow> nat \<Rightarrow> jsnum" where
  "js_ratio n d =
     (if d = 0 then (if n = 0 then NaN else PosInf) else Num (of_nat n / of_nat d))"

fun js_less :: "jsnum \<Rightarrow> rat \<Rightarrow> bool" where
  "js_less NaN y = False"
| "js_less PosInf y = False"
| "js_less (Num x) y = (x < y)"

section \<open>Data model (types.ts)\<close>

datatype severity = critical | high | medium | low | info

fun severity_str :: "severity \<Rightarrow> string" where
  "severity_str critical = ''critical''"
| "severity_str high = ''high''"
| "severity_str medium = ''medium''"
| "severity_str low = ''low''"
| "severity_str info = ''info''"

record SecurityFinding =
  f_id :: string
  tool :: string
  f_resource :: string
  title :: string
  description :: string
  severity :: severity
  evidence :: string
  recommendation :: string
  confidence :: rat
  category :: string

section \<open>Grouper (deduplication/grouper.ts)\<close>

record FindingGroup =
  g_id :: string
  g_title :: string
  g_category :: string
  g_severity :: severity
  g_count :: nat
  g_findings :: "SecurityFinding list"
  representativeFinding :: SecurityFinding

record GroupingResult =
  groups :: "FindingGroup list"
  uniqueFindings :: "SecurityFinding list"
  duplicateCount :: int
  noiseReductionPercent :: int

definition generateGroupKey :: "SecurityFinding \<Rightarrow> string" where
  "generateGroupKey finding =
     join ''::'' [tool finding, category finding, trim (toLowerCase (title finding)),
                  severity_str (severity finding)]"

text \<open>
  The \<open>Map\<close> of groups is an association list in insertion order. \<open>group_add\<close> is the
  branch that pushes a finding onto the group stored under an existing key.
\<close>

fun group_add :: "(string \<times> FindingGroup) list \<Rightarrow> string \<Rightarrow> SecurityFinding
    \<Rightarrow> (string \<times> FindingGroup) list" where
  "group_add [] k finding = []"
| "group_add ((k', g) # rest) k finding =
     (if k' = k
      then (k', g\<lparr>g_findings := g_findings g @ [finding], g_count := g_count g + 1\<rparr>) # rest
      else (k', g) # group_add rest k finding)"

definition new_group :: "string \<Rightarrow> SecurityFinding \<Rightarrow> FindingGroup" where
  "new_group groupKey finding =
     \<lparr>g_id = ''group-'' @ groupKey, g_title = title finding, g_category = category finding,
      g_severity = severity finding, g_count = 1, g_findings = [finding],
      representativeFinding = finding\<rparr>"

fun group_loop :: "SecurityFinding list
    \<Rightarrow> (string \<times> FindingGroup) list \<times> SecurityFinding list
    \<Rightarrow> (string \<times> FindingGroup) list \<times> SecurityFinding list" where
  "group_loop [] st = st"
| "group_loop (finding # rest) (gs, uniq) =
     (let groupKey = generateGroupKey finding in
      if map_of gs groupKey \<noteq> None
      then group_loop rest (group_add gs groupKey finding, uniq)
      else group_loop rest (gs @ [(groupKey, new_group groupKey finding)], uniq @ [finding]))"

definition groupFindings :: "SecurityFinding list \<Rightarrow> GroupingResult" where
  "groupFindings findings =
     (let (gs, uniq) = group_loop findings ([], []);
          dup = int (length findings) - int (length uniq)
      in \<lparr>groups = map snd gs, uniqueFindings = uniq, duplicateCount = dup,
          noiseReductionPercent =
            (if length findings > 0
             then js_round ((of_int dup / of_nat (length findings)) * 100) else 0)\<rparr>)"

section \<open>Risk scorer (scoring/riskScorer.ts)\<close>

text \<open>
  \<open>RiskScore\<close> keeps the four numbers; the explanatory fields \<open>reasoning\<close> and
  \<open>factors\<close>, which no number depends on, are left out.
\<close>

record RiskScore =
  overall :: int
  exploitLikelihood :: rat
  businessImpact :: rat
  rs_confidence :: rat

record CVSSModifiers =
  attackComplexity :: rat
  privilegesRequired :: rat
  userInteraction :: rat
  scope :: rat

definition calculateCVSSModifiers :: "SecurityFinding \<Rightarrow> CVSSModifiers" where
  "calculateCVSSModifiers finding =
     (let ev = toLowerCase (evidence finding);
          d = toLowerCase (description finding)
      in \<lparr>attackComplexity =
            (if str_includes d ''chained'' \<or> str_includes d ''multiple steps'' then 0.4
             else if str_includes d ''authenticated'' \<or> str_includes d ''requires'' then 0.7
             else 1.0),
          privilegesRequired =
            (if str_includes d ''admin'' \<or> str_includes d ''root''
                \<or> str_includes ev ''cluster-admin'' then 0.3
             else if str_includes d ''authenticated'' \<or> str_includes d ''user'' then 0.6
             else 1.0),
          userInteraction =
            (if str_includes d ''click'' \<or> str_includes d ''user action''
                \<or> str_includes d ''manual'' then 0.6
             else 1.0),
          scope =
            (if str_includes d ''cluster'' \<or> str_includes d ''lateral''
                \<or> str_includes d ''pivot'' \<or> str_includes d ''escape'' then 1.2
             else 1.0)\<rparr>)"

definition calculateTemporalScore :: "SecurityFinding \<Rightarrow> rat" where
  "calculateTemporalScore finding =
     (let score = 5.0;
          d = toLowerCase (description finding);
          cat = toLowerCase (category finding);
          score = (if str_includes d ''poc available'' \<or> str_includes d ''exploit''
                   then score + 2.0
                   else if str_includes d ''theoretical'' \<or> str_includes d ''no known''
                   then score - 1.0 else score);
          score = (if str_includes cat ''docker'' \<and> str_includes d ''latest tag''
                   then score + 1.0 else score);
          score = (if str_includes d ''no patch'' \<or> str_includes d ''cannot fix''
                   then score + 1.5 else score);
          score = (if confidence finding \<ge> 0.9 then score + 0.5 else score)
      in max 0 (min 10 score))"

definition severityMultiplier :: "severity \<Rightarrow> rat" where
  "severityMultiplier s =
     (case s of critical \<Rightarrow> 1.9 | high \<Rightarrow> 1.4 | medium \<Rightarrow> 0.85 | low \<Rightarrow> 0.55 | info \<Rightarrow> 0.35)"

definition calculateExploitLikelihood :: "SecurityFinding \<Rightarrow> rat" where
  "calculateExploitLikelihood finding =
     (let ev = toLowerCase (evidence finding);
          d = toLowerCase (description finding);
          t = toLowerCase (title finding);
          score = (0::rat);
          score = (if str_includes ev ''0.0.0.0'' \<or> str_includes ev ''internet-facing''
                   then score + 4.5
                   else if str_includes ev ''publicly accessible'' \<or> str_includes ev ''external''
                   then score + 3.8
                   else if str_includes ev ''127.0.0.1'' \<or> str_includes ev ''localhost''
                   then score + 0.5 else score);
          score = (if str_includes d ''no authentication'' \<or> str_includes d ''unauthenticated''
                      \<or> str_includes ev ''anonymous'' \<or> str_includes t ''unauthenticated''
                   then score + 4.2 else score);
          score = (if str_includes ev ''default password'' \<or> str_includes d ''default credential''
                      \<or> str_includes ev ''admin:admin'' \<or> str_includes ev ''root:root''
                   then score + 4.8 else score);
          score = (if str_includes d ''privileged'' \<or> str_includes ev ''privileged: true''
                      \<or> str_includes ev ''--privileged''
                   then score + 3.5 else score);
          score = (if str_includes d ''hostnetwork'' \<or> str_includes ev ''hostNetwork: true''
                      \<or> str_includes d ''hostpath''
                   then score + 3.2 else score);
          score = (if str_includes d ''hostipc'' \<or> str_includes d ''hostpid''
                   then score + 3.0 else score);
          score = (if (str_includes d ''tls'' \<or> str_includes d ''ssl'')
                      \<and> (str_includes ev ''false'' \<or> str_includes ev ''disabled''
                           \<or> str_includes d ''not enabled'')
                   then score + 3.8 else score);
          score = (if str_includes d ''weak cipher'' \<or> str_includes d ''sslv3''
                   then score + 3.5 else score);
          score = (if str_includes d ''root'' \<or> str_includes ev ''user: root''
                      \<or> str_includes ev ''uid: 0'' \<or> str_includes ev ''runAsNonRoot: false''
                   then score + 2.8 else score);
          score = (if str_includes d ''sudo'' \<or> str_includes d ''setuid''
                   then score + 3.0 else score);
          score = (if str_includes d ''rce'' \<or> str_includes d ''remote code execution''
                   then score + 5.5 else score);
          score = (if str_includes d ''sql injection'' \<or> str_includes d ''sqli''
                   then score + 5.0 else score);
          score = (if str_includes d ''command injection'' \<or> str_includes d ''shell injection''
                   then score + 5.2 else score);
          score = (if str_includes d ''path traversal'' \<or> str_includes d ''directory traversal''
                   then score + 4.0 else score);
          score = (if str_includes d ''xxe'' \<or> str_includes d ''xml external entity''
                   then score + 4.2 else score);
          score = (if str_includes d ''ssrf'' \<or> str_includes d ''server-side request forgery''
                   then score + 4.5 else score);
          score = (if str_includes d ''secrets'' \<or> str_includes ev ''secret''
                   then score + 3.5 else score);
          score = (if str_includes d ''cluster-admin'' \<or> str_includes ev ''cluster-admin''
                   then score + 4.0 else score);
          score = (if str_includes d ''latest tag'' \<or> str_includes ev '':latest''
                   then score + 1.5 else score);
          categoryMultiplier =
            (if str_includes (category finding) ''kubernetes-rbac'' then 1.3
             else if str_includes (category finding) ''docker-security'' then 1.2
             else if str_includes (category finding) ''nginx-security'' then 1.1
             else 1.0);
          finalScore = score * severityMultiplier (severity finding) * categoryMultiplier
      in min 10 (max 0 finalScore))"

definition severityBonus :: "severity \<Rightarrow> rat" where
  "severityBonus s = (case s of critical \<Rightarrow> 2 | high \<Rightarrow> 1 | medium \<Rightarrow> 0 | low \<Rightarrow> -1 | info \<Rightarrow> -2)"

definition calculateBusinessImpact :: "SecurityFinding \<Rightarrow> rat" where
  "calculateBusinessImpact finding =
     (let d = toLowerCase (description finding);
          score = (0::rat);
          score = (if str_includes d ''secret'' \<or> str_includes d ''credential''
                      \<or> str_includes d ''api key'' \<or> str_includes d ''token''
                   then score + 5 else score);
          score = (if str_includes d ''data breach'' \<or> str_includes d ''data exfiltration''
                      \<or> str_includes d ''data leak''
                   then score + 5 else score);
          score = (if str_includes d ''ransomware'' \<or> str_includes d ''crypto''
                   then score + 5 else score);
          score = (if str_includes d ''availability'' \<or> str_includes d ''downtime''
                      \<or> str_includes d ''denial of service''
                   then score + 4 else score);
          score = (if str_includes d ''compliance'' \<or> str_includes d ''gdpr''
                      \<or> str_includes d ''hipaa'' \<or> str_includes d ''pci-dss''
                   then score + 4 else score);
          score = (if str_includes d ''lateral movement'' \<or> str_includes d ''pivot''
                      \<or> str_includes d ''cluster-admin''
                   then score + 4.5 else score);
          score = (if str_includes d ''etcd'' \<or> str_includes d ''control plane''
                   then score + 5 else score);
          finalScore = score + severityBonus (severity finding)
      in max 0 (min 10 finalScore))"

definition round1 :: "rat \<Rightarrow> rat" where
  "round1 x = of_int (js_round (x * 10)) / 10"

definition scoreFind :: "SecurityFinding \<Rightarrow> RiskScore" where
  "scoreFind finding =
     (let exploit = calculateExploitLikelihood finding;
          impact = calculateBusinessImpact finding;
          conf = confidence finding * 5;
          cvssModifiers = calculateCVSSModifiers finding;
          temporalScore = calculateTemporalScore finding;
          adjustedExploit =
            exploit * attackComplexity cvssModifiers * privilegesRequired cvssModifiers;
          adjustedImpact = impact * scope cvssModifiers;
          compositeScore =
            (adjustedExploit * 0.45 + adjustedImpact * 0.40 + conf * 0.10
               + temporalScore * 0.05) / 10;
          ov = js_round (compositeScore * 100)
      in \<lparr>overall = min 100 (max 0 ov),
          exploitLikelihood = round1 adjustedExploit,
          businessImpact = round1 adjustedImpact,
          rs_confidence = round1 conf\<rparr>)"

section \<open>Scoring stage of the orchestrator (orchestrator.ts, scoreFindings)\<close>

datatype status = pending | patched | ignored | requires_manual_review | grouped

text \<open>
  A \<open>PrioritizedFinding\<close> is the finding with two more fields; the copied finding is kept
  as one field. \<open>Array.prototype.sort\<close> is stable and orders by the sign of the comparator;
  it is modelled by the stable insertion sort \<open>js_sort\<close>.
\<close>

record PrioritizedFinding =
  finding :: SecurityFinding
  riskScore :: RiskScore
  status :: status

fun js_insert :: "('a \<Rightarrow> 'a \<Rightarrow> int) \<Rightarrow> 'a \<Rightarrow> 'a list \<Rightarrow> 'a list" where
  "js_insert cmp x [] = [x]"
| "js_insert cmp x (y # ys) = (if cmp x y \<le> 0 then x # y # ys else y # js_insert cmp x ys)"

fun js_sort :: "('a \<Rightarrow> 'a \<Rightarrow> int) \<Rightarrow> 'a list \<Rightarrow> 'a list" where
  "js_sort cmp [] = []"
| "js_sort cmp (x # xs) = js_insert cmp x (js_sort cmp xs)"

definition prioritize :: "SecurityFinding \<Rightarrow> PrioritizedFinding" where
  "prioritize f = \<lparr>finding = f, riskScore = scoreFind f, status = pending\<rparr>"

definition scoreFindings :: "SecurityFinding list \<Rightarrow> PrioritizedFinding list" where
  "scoreFindings findings =
     js_sort (\<lambda>a b. overall (riskScore b) - overall (riskScore a)) (map prioritize findings)"

section \<open>Validator (validation/validator.ts)\<close>

datatype patch_type = nginx | docker | kubernetes | custom

record SecurityPatch =
  p_id :: string
  findingId :: string
  resource :: string
  ptype :: patch_type
  before :: string
  after :: string
  diff :: string
  assumptions :: "string list"
  rollbackSteps :: "string list"
  validationSteps :: "string list"
  safetyNotes :: string
  applied :: bool

record ValidationResult =
  v_patchId :: string
  passed :: bool
  v_message :: string

text \<open>
  The regular expressions of the validator all have the shape \<open>/^(K1|K2|...)\s+/i\<close>: the
  line begins with one of the keywords, in either case, followed by at least one white-space
  character. \<open>re_keyword_space\<close> is that test.
\<close>

definition starts_ci :: "string \<Rightarrow> string \<Rightarrow> bool" where
  "starts_ci line kw = startsWith (map lower_char line) (map lower_char kw)"

definition re_keyword_space :: "string list \<Rightarrow> string \<Rightarrow> bool" where
  "re_keyword_space kws line =
     list_ex (\<lambda>kw. starts_ci line kw \<and>
                (case drop (length kw) line of [] \<Rightarrow> False | c # rest \<Rightarrow> is_space c)) kws"

definition docker_directives :: "string list" where
  "docker_directives =
     [''RUN'', ''CMD'', ''ENTRYPOINT'', ''COPY'', ''ADD'', ''WORKDIR'', ''USER'', ''EXPOSE'',
      ''ENV'', ''ARG'', ''HEALTHCHECK'', ''ONBUILD'', ''LABEL'']"

definition validateNginx :: "SecurityPatch \<Rightarrow> ValidationResult" where
  "validateNginx patch =
     (let hasBalancedBraces =
            (count_list (after patch) (CHR ''{'') = count_list (after patch) (CHR ''}''))
      in if \<not> hasBalancedBraces
         then \<lparr>v_patchId = p_id patch, passed = False,
               v_message = ''Nginx config syntax error: unbalanced braces''\<rparr>
         else if length (trim (after patch)) = 0
         then \<lparr>v_patchId = p_id patch, passed = False, v_message = ''Nginx config is empty''\<rparr>
         else \<lparr>v_patchId = p_id patch, passed = True, v_message = ''Nginx config is valid''\<rparr>)"

definition validateDocker :: "SecurityPatch \<Rightarrow> ValidationResult" where
  "validateDocker patch =
     (let afterLines = split_lines (after patch);
          hasFrom = list_ex (re_keyword_space [''FROM'']) afterLines
      in if \<not> hasFrom
         then \<lparr>v_patchId = p_id patch, passed = False,
               v_message = ''Dockerfile must have FROM directive''\<rparr>
         else
           (let invalidDirectives =
                  filter (\<lambda>line. re_keyword_space docker_directives line
                                  \<and> \<not> str_includes line '' '') afterLines
            in if length invalidDirectives > 0
               then \<lparr>v_patchId = p_id patch, passed = False,
                     v_message = ''Dockerfile has invalid directives: ''
                                   @ join '', '' invalidDirectives\<rparr>
               else \<lparr>v_patchId = p_id patch, passed = True,
                     v_message = ''Dockerfile syntax valid''\<rparr>))"

definition indent_of :: "string \<Rightarrow> int" where
  "indent_of line =
     (if list_all is_space line then -1 else int (length (takeWhile is_space line)))"

fun k8s_indent_check :: "string \<Rightarrow> string list \<Rightarrow> ValidationResult" where
  "k8s_indent_check pid [] =
     \<lparr>v_patchId = pid, passed = True, v_message = ''Kubernetes manifest syntax valid''\<rparr>"
| "k8s_indent_check pid (line # rest) =
     (if length (trim line) = 0 then k8s_indent_check pid rest
      else if indent_of line mod 2 \<noteq> 0
      then \<lparr>v_patchId = pid, passed = False,
            v_message = ''Kubernetes manifest has invalid indentation at: '' @ take 50 line\<rparr>
      else k8s_indent_check pid rest)"

definition validateKubernetes :: "SecurityPatch \<Rightarrow> ValidationResult" where
  "validateKubernetes patch =
     (let lines = split_lines (after patch);
          hasKind = list_ex (re_keyword_space [''kind:'']) lines
      in if \<not> hasKind
         then \<lparr>v_patchId = p_id patch, passed = False,
               v_message = ''Kubernetes manifest must have kind field''\<rparr>
         else k8s_indent_check (p_id patch) lines)"

definition patch_type_str :: "patch_type \<Rightarrow> string" where
  "patch_type_str t =
     (case t of nginx \<Rightarrow> ''nginx'' | docker \<Rightarrow> ''docker'' | kubernetes \<Rightarrow> ''kubernetes''
      | custom \<Rightarrow> ''custom'')"

definition validatePatch :: "SecurityPatch \<Rightarrow> ValidationResult" where
  "validatePatch patch =
     (if ptype patch = nginx then validateNginx patch
      else if ptype patch = docker then validateDocker patch
      else if ptype patch = kubernetes then validateKubernetes patch
      else \<lparr>v_patchId = p_id patch, passed = False,
            v_message = ''Unknown patch type: '' @ patch_type_str (ptype patch)\<rparr>)"

section \<open>The file system\<close>

text \<open>
  The disk maps each file to its bytes. A path names a file through \<open>resolve\<close>, the path
  resolution of the operating system, so that two spellings of one path reach one file;
  \<open>write_ok\<close> tells which files the process may write. A failure is \<open>None\<close>, where the
  source throws.

  \<open>readFile\<close> is always called with the encoding \<open>utf-8\<close>: it fails on a path that names
  no file and otherwise decodes the bytes, every maximal ill-formed part of them becoming
  the replacement character U+FFFD. \<open>utf8_sanitize\<close> is that decoding followed by the
  encoding of its result: well-formed sequences are kept, an ill-formed part becomes the
  three bytes of U+FFFD. \<open>utf8_loop\<close> carries the number of continuation bytes still
  needed, the range allowed for the next one, and the bytes of the sequence read so far.
  \<open>writeFile\<close> stores the encoding of the string it is given.
\<close>

definition replacement_char :: string where
  "replacement_char = [CHR 0xEF, CHR 0xBF, CHR 0xBD]"

fun utf8_loop :: "nat \<Rightarrow> nat \<Rightarrow> nat \<Rightarrow> string \<Rightarrow> string \<Rightarrow> string" where
  "utf8_loop needed lo hi acc [] = (if needed = 0 then [] else replacement_char)"
| "utf8_loop needed lo hi acc (b # bs) =
     (let n = (of_char b :: nat);
          continues = (needed \<noteq> 0 \<and> lo \<le> n \<and> n \<le> hi)
      in if continues
         then (if needed = 1 then acc @ b # utf8_loop 0 128 191 [] bs
               else utf8_loop (needed - 1) 128 191 (acc @ [b]) bs)
         else (if needed \<noteq> 0 then replacement_char else []) @
              (if n \<le> 127 then b # utf8_loop 0 128 191 [] bs
               else if 194 \<le> n \<and> n \<le> 223 then utf8_loop 1 128 191 [b] bs
               else if 224 \<le> n \<and> n \<le> 239
               then utf8_loop 2 (if n = 224 then 160 else 128) (if n = 237 then 159 else 191) [b] bs
               else if 240 \<le> n \<and> n \<le> 244
               then utf8_loop 3 (if n = 240 then 144 else 128) (if n = 244 then 143 else 191) [b] bs
               else replacement_char @ utf8_loop 0 128 191 [] bs))"

definition utf8_sanitize :: "string \<Rightarrow> string" where
  "utf8_sanitize bytes = utf8_loop 0 128 191 [] bytes"

record filesystem =
  files :: "string \<Rightarrow> string option"
  resolve :: "string \<Rightarrow> string"
  write_ok :: "string \<Rightarrow> bool"

definition readFile :: "filesystem \<Rightarrow> string \<Rightarrow> string option" where
  "readFile fs path = map_option utf8_sanitize (files fs (resolve fs path))"

definition writeFile :: "filesystem \<Rightarrow> string \<Rightarrow> string \<Rightarrow> filesystem option" where
  "writeFile fs path content =
     (if write_ok fs (resolve fs path)
      then Some (fs\<lparr>files := (files fs)(resolve fs path \<mapsto> content)\<rparr>) else None)"

definition mkdir :: "filesystem \<Rightarrow> string \<Rightarrow> filesystem option" where
  "mkdir fs path = (if write_ok fs (resolve fs path) then Some fs else None)"

text \<open>
  \<open>path.join\<close> puts the separator between its arguments and normalises the result. The
  paths built below, from a base directory and a hexadecimal id, are what it returns for
  a base directory in normal form; which file a path names is decided by \<open>resolve\<close>.
\<close>

definition path_join :: "string \<Rightarrow> string \<Rightarrow> string" where
  "path_join a b = a @ ''/'' @ b"

section \<open>Rollback manager (safety/rollbackManager.ts)\<close>

record SnapshotEntry =
  patchId :: string
  e_resource :: string
  originalContent :: string

record Snapshot =
  s_id :: string
  entries :: "SnapshotEntry list"

record RollbackResult =
  r_patchId :: string
  success :: bool
  r_message :: string

text \<open>
  \<open>JSON.stringify\<close> and \<open>JSON.parse\<close> belong to the platform; the manager only relies on
  them through the three functions of \<open>runtime\<close>: the text of a snapshot document, the
  reading of such a text (\<open>None\<close> where parsing or the use of the parsed value throws), and
  the text of the history log after one more rollback record, computed from the old text
  if there is one. Time stamps and the text of caught errors are left out.
\<close>

record runtime =
  json_stringify :: "Snapshot \<Rightarrow> string"
  json_parse :: "string \<Rightarrow> Snapshot option"
  history_json :: "string option \<Rightarrow> string \<Rightarrow> RollbackResult list \<Rightarrow> string"

datatype io_error = MkdirFailed string | WriteFailed string

definition snapshotDir :: "string \<Rightarrow> string" where
  "snapshotDir baseDir = path_join baseDir ''snapshots''"

definition historyFile :: "string \<Rightarrow> string" where
  "historyFile baseDir = path_join baseDir ''history.json''"

definition snapshotFile :: "string \<Rightarrow> string \<Rightarrow> string" where
  "snapshotFile baseDir snapshotId =
     path_join (path_join (snapshotDir baseDir) snapshotId) ''snapshot.json''"

text \<open>
  The loop of \<open>createSnapshot\<close> over the patches: \<open>snapshot_entries\<close> is the list it
  pushes onto \<open>snapshot.patches\<close>; the warnings it prints for the resources it skips are
  \<open>snapshot_warnings\<close> of the orchestrator section.
\<close>

fun snapshot_entries :: "filesystem \<Rightarrow> SecurityPatch list \<Rightarrow> SnapshotEntry list" where
  "snapshot_entries fs [] = []"
| "snapshot_entries fs (patch # rest) =
     (case readFile fs (resource patch) of
        Some content \<Rightarrow>
          \<lparr>patchId = p_id patch, e_resource = resource patch, originalContent = content\<rparr>
            # snapshot_entries fs rest
      | None \<Rightarrow> snapshot_entries fs rest)"

definition createSnapshot :: "runtime \<Rightarrow> string \<Rightarrow> filesystem \<Rightarrow> string \<Rightarrow> SecurityPatch list
    \<Rightarrow> io_error + (string \<times> filesystem)" where
  "createSnapshot rt baseDir fs snapshotId patches =
     (let snapshotPath = path_join (snapshotDir baseDir) snapshotId in
      case mkdir fs snapshotPath of
        None \<Rightarrow> Inl (MkdirFailed snapshotPath)
      | Some fs1 \<Rightarrow>
          (let snapshot = \<lparr>s_id = snapshotId, entries = snapshot_entries fs1 patches\<rparr>;
               snapshotJson = path_join snapshotPath ''snapshot.json''
           in case writeFile fs1 snapshotJson (json_stringify rt snapshot) of
                None \<Rightarrow> Inl (WriteFailed snapshotJson)
              | Some fs2 \<Rightarrow> Inr (snapshotId, fs2)))"

fun rollback_loop :: "filesystem \<Rightarrow> SnapshotEntry list \<Rightarrow> RollbackResult list \<times> filesystem" where
  "rollback_loop fs [] = ([], fs)"
| "rollback_loop fs (item # rest) =
     (case writeFile fs (e_resource item) (originalContent item) of
        Some fs1 \<Rightarrow>
          (let (results, fs2) = rollback_loop fs1 rest
           in (\<lparr>r_patchId = patchId item, success = True,
                 r_message = ''Rolled back '' @ e_resource item\<rparr> # results, fs2))
      | None \<Rightarrow>
          (let (results, fs2) = rollback_loop fs rest
           in (\<lparr>r_patchId = patchId item, success = False,
                 r_message = ''Failed to rollback '' @ e_resource item\<rparr> # results, fs2)))"

definition recordRollback :: "runtime \<Rightarrow> string \<Rightarrow> filesystem \<Rightarrow> string \<Rightarrow> RollbackResult list
    \<Rightarrow> filesystem" where
  "recordRollback rt baseDir fs snapshotId results =
     (let doc = history_json rt (readFile fs (historyFile baseDir)) snapshotId results in
      case mkdir fs baseDir of
        None \<Rightarrow> fs
      | Some fs1 \<Rightarrow>
          (case writeFile fs1 (historyFile baseDir) doc of None \<Rightarrow> fs1 | Some fs2 \<Rightarrow> fs2))"

definition load_failure :: RollbackResult where
  "load_failure = \<lparr>r_patchId = ''unknown'', success = False,
                    r_message = ''Failed to load snapshot''\<rparr>"

definition rollback :: "runtime \<Rightarrow> string \<Rightarrow> filesystem \<Rightarrow> string
    \<Rightarrow> RollbackResult list \<times> filesystem" where
  "rollback rt baseDir fs snapshotId =
     (case readFile fs (snapshotFile baseDir snapshotId) of
        None \<Rightarrow> ([load_failure], fs)
      | Some snapshotData \<Rightarrow>
          (case json_parse rt snapshotData of
             None \<Rightarrow> ([load_failure], fs)
           | Some snapshot \<Rightarrow>
               (let (results, fs1) = rollback_loop fs (entries snapshot)
                in (results, recordRollback rt baseDir fs1 snapshotId results))))"

section \<open>Orchestrator (orchestrator.ts)\<close>

record OrchestratorOptions =
  target :: string
  dryRun :: bool
  apply_flag :: bool
  enableRollback :: bool

record ReportStatistics =
  totalFindings :: nat
  st_uniqueFindings :: nat
  duplicateFindings :: int
  byCategory :: "string \<Rightarrow> nat option"
  bySeverity :: "string \<Rightarrow> nat option"
  criticalCount :: nat
  highCount :: nat
  mediumCount :: nat
  lowCount :: nat
  patchedCount :: nat
  validationPassRate :: jsnum
  rollbackSuccessRate :: jsnum
  st_noiseReductionPercent :: int
  groupCount :: nat

record HardeningReport =
  runId :: string
  r_target :: string
  r_findings :: "SecurityFinding list"
  groupedFindings :: "FindingGroup list"
  prioritizedPlan :: "PrioritizedFinding list"
  r_patches :: "SecurityPatch list"
  validationResults :: "ValidationResult list"
  rollbackResults :: "RollbackResult list"
  statistics :: ReportStatistics

text \<open>
  The console lines of steps 5 and 6, in the order printed: the warning of
  \<open>createSnapshot\<close> for a resource it could not read, the snapshot id, the warning of
  \<open>applyPatches\<close> for the patch it could not write, \<open>Applied n patches\<close>,
  \<open>Rollback triggered\<close>, \<open>Rolled back n changes\<close>, and the dry-run notice. The error
  lines of \<open>rollback\<close> and \<open>recordRollback\<close>, which repeat what their results say, are
  left out.
\<close>

datatype event =
  SnapshotSkipWarn string | SnapshotLog string | ApplyFailedWarn string | AppliedLog nat
  | RollbackTriggeredLog | RolledBackLog nat | DryRunLog

fun snapshot_warnings :: "filesystem \<Rightarrow> SecurityPatch list \<Rightarrow> event list" where
  "snapshot_warnings fs [] = []"
| "snapshot_warnings fs (patch # rest) =
     (case readFile fs (resource patch) of
        Some content \<Rightarrow> snapshot_warnings fs rest
      | None \<Rightarrow> SnapshotSkipWarn (resource patch) # snapshot_warnings fs rest)"

definition validatePatches :: "SecurityPatch list \<Rightarrow> ValidationResult list" where
  "validatePatches patches = map validatePatch patches"

text \<open>
  \<open>applyPatches\<close> returns its boolean, the disk it leaves, the patches with the
  \<open>applied\<close> flags it has set, and what it printed.
\<close>

fun applyPatches :: "filesystem \<Rightarrow> SecurityPatch list
    \<Rightarrow> bool \<times> filesystem \<times> SecurityPatch list \<times> event list" where
  "applyPatches fs [] = (True, fs, [], [])"
| "applyPatches fs (patch # rest) =
     (case writeFile fs (resource patch) (after patch) of
        None \<Rightarrow> (False, fs, patch # rest, [ApplyFailedWarn (p_id patch)])
      | Some fs1 \<Rightarrow>
          (let (ok, fs2, rest', warned) = applyPatches fs1 rest
           in (ok, fs2, patch\<lparr>applied := True\<rparr> # rest', warned)))"

definition bump :: "(string \<Rightarrow> nat option) \<Rightarrow> string \<Rightarrow> (string \<Rightarrow> nat option)" where
  "bump m k = m(k \<mapsto> (case m k of None \<Rightarrow> 0 | Some c \<Rightarrow> c) + 1)"

definition or_zero :: "nat option \<Rightarrow> nat" where
  "or_zero v = (case v of None \<Rightarrow> 0 | Some c \<Rightarrow> c)"

definition computeStatistics :: "GroupingResult \<Rightarrow> SecurityFinding list \<Rightarrow> SecurityPatch list
    \<Rightarrow> ValidationResult list \<Rightarrow> RollbackResult list \<Rightarrow> ReportStatistics" where
  "computeStatistics groupingResult findings patches validationRes rollbackRes =
     (let byCat = fold (\<lambda>f m. bump m (category f)) (uniqueFindings groupingResult) Map.empty;
          bySev = fold (\<lambda>f m. bump m (severity_str (severity f)))
                    (uniqueFindings groupingResult) Map.empty
      in \<lparr>totalFindings = length findings,
          st_uniqueFindings = length (uniqueFindings groupingResult),
          duplicateFindings = duplicateCount groupingResult,
          byCategory = byCat,
          bySeverity = bySev,
          criticalCount = or_zero (bySev ''critical''),
          highCount = or_zero (bySev ''high''),
          mediumCount = or_zero (bySev ''medium''),
          lowCount = or_zero (bySev ''low''),
          patchedCount = length (filter applied patches),
          validationPassRate =
            (if length validationRes > 0
             then js_ratio (length (filter passed validationRes)) (length validationRes)
             else Num 1.0),
          rollbackSuccessRate =
            (if length rollbackRes > 0
             then js_ratio (length (filter success rollbackRes)) (length rollbackRes)
             else Num 1.0),
          st_noiseReductionPercent = noiseReductionPercent groupingResult,
          groupCount = length (groups groupingResult)\<rparr>)"

text \<open>
  Steps 5 and 6 of \<open>harden\<close>. \<open>snapshotRnd\<close> is the hexadecimal text of the eight random
  bytes drawn by \<open>createSnapshot\<close>; the rollback manager works under \<open>.hardener\<close>. The
  boolean of \<open>applyPatches\<close> is bound and not used, as in the source.
\<close>

definition apply_stage :: "runtime \<Rightarrow> OrchestratorOptions \<Rightarrow> string \<Rightarrow> filesystem
    \<Rightarrow> SecurityPatch list \<Rightarrow> jsnum
    \<Rightarrow> io_error + (RollbackResult list \<times> filesystem \<times> SecurityPatch list \<times> event list)" where
  "apply_stage rt options snapshotRnd fs patches passRate =
     (if apply_flag options \<and> \<not> dryRun options then
        (case (if enableRollback options
               then (case createSnapshot rt ''.hardener'' fs snapshotRnd patches of
                       Inl e \<Rightarrow> Inl e
                     | Inr (sid, fs1) \<Rightarrow>
                         Inr (sid, fs1, snapshot_warnings fs patches @ [SnapshotLog sid]))
               else Inr ([], fs, [])) of
           Inl e \<Rightarrow> Inl e
         | Inr (snapshotId, fs1, log1) \<Rightarrow>
             (let (ok, fs2, patches', warned) = applyPatches fs1 patches;
                  log2 = log1 @ warned @ [AppliedLog (length patches)]
              in if enableRollback options \<and> js_less passRate 1.0 \<and> snapshotId \<noteq> []
                 then (let (results, fs3) = rollback rt ''.hardener'' fs2 snapshotId
                       in Inr (results, fs3, patches',
                               log2 @ [RollbackTriggeredLog, RolledBackLog (length results)]))
                 else Inr ([], fs2, patches', log2)))
      else Inr ([], fs, patches, [DryRunLog]))"

text \<open>
  \<open>harden\<close> from the scan result to the report. The scan (step 1) and the patch engine
  (step 3) are the inputs \<open>findings\<close> and \<open>patches\<close>; the rendering of the report and the
  run history (step 7) are not part of the model. The result is the report, the disk and
  the console events, or the error thrown by the snapshot.
\<close>

definition harden :: "runtime \<Rightarrow> OrchestratorOptions \<Rightarrow> string \<Rightarrow> string \<Rightarrow> filesystem
    \<Rightarrow> SecurityFinding list \<Rightarrow> SecurityPatch list
    \<Rightarrow> io_error + (HardeningReport \<times> filesystem \<times> event list)" where
  "harden rt options rid snapshotRnd fs findings patches =
     (let groupingResult = groupFindings findings;
          plan = scoreFindings (uniqueFindings groupingResult);
          results = validatePatches patches;
          passRate = js_ratio (length (filter passed results)) (length results)
      in case apply_stage rt options snapshotRnd fs patches passRate of
           Inl e \<Rightarrow> Inl e
         | Inr (rollbackRes, fs', patches', events) \<Rightarrow>
             Inr (\<lparr>runId = rid, r_target = target options, r_findings = findings,
                   groupedFindings = groups groupingResult, prioritizedPlan = plan,
                   r_patches = patches', validationResults = results,
                   rollbackResults = rollbackRes,
                   statistics = computeStatistics groupingResult findings patches' results
                                  rollbackRes\<rparr>, fs', events))"

section \<open>Patch engine (patching/patchEngine.ts)\<close>








section \<open>Sample inputs\<close>

text \<open>
  A small length-prefixed text format stands for JSON wherever a theorem is instantiated
  at a concrete input: a string is written as one \<open>#\<close> per character, a colon, and the
  string itself.
\<close>

definition enc_str :: "string \<Rightarrow> string" where
  "enc_str s = replicate (length s) (CHR ''#'') @ CHR '':'' # s"

fun dec_strs :: "nat \<Rightarrow> string \<Rightarrow> string list option" where
  "dec_strs 0 s = (if s = [] then Some [] else None)"
| "dec_strs (Suc n) s =
     (if s = [] then Some []
      else (let k = length (takeWhile (\<lambda>c. c = CHR ''#'') s) in
            case drop k s of
              [] \<Rightarrow> None
            | c # r \<Rightarrow>
                if c = CHR '':'' \<and> k \<le> length r
                then map_option ((#) (take k r)) (dec_strs n (drop k r)) else None))"

fun to_entries :: "string list \<Rightarrow> SnapshotEntry list option" where
  "to_entries [] = Some []"
| "to_entries (a # b # c # rest) =
     map_option ((#) \<lparr>patchId = a, e_resource = b, originalContent = c\<rparr>) (to_entries rest)"
| "to_entries other = None"

definition sample_stringify :: "Snapshot \<Rightarrow> string" where
  "sample_stringify snap =
     concat (map enc_str (s_id snap #
       concat (map (\<lambda>e. [patchId e, e_resource e, originalContent e]) (entries snap))))"

definition sample_parse :: "string \<Rightarrow> Snapshot option" where
  "sample_parse text =
     (case dec_strs (length text) text of
        Some (i # strs) \<Rightarrow> map_option (\<lambda>es. \<lparr>s_id = i, entries = es\<rparr>) (to_entries strs)
      | other \<Rightarrow> None)"

definition sample_runtime :: runtime where
  "sample_runtime =
     \<lparr>json_stringify = sample_stringify, json_parse = sample_parse,
      history_json = (\<lambda>old sid results. (case old of None \<Rightarrow> [] | Some h \<Rightarrow> h) @ enc_str sid)\<rparr>"

definition sample_finding :: SecurityFinding where
  "sample_finding =
     \<lparr>f_id = ''1'', tool = ''config-reader'', f_resource = ''a.conf'',
      title = ''Server tokens exposed'', description = ''server_tokens on'', severity = high,
      evidence = ''server_tokens on;'', recommendation = ''Disable server tokens'',
      confidence = 0.9, category = ''nginx-config''\<rparr>"

definition impact_finding :: SecurityFinding where
  "impact_finding =
     \<lparr>f_id = ''k8s-1'', tool = ''config-reader'', f_resource = ''rbac.yaml'',
      title = ''Over-broad service account'',
      description = ''Allows lateral movement across the cluster and exposes etcd secrets'',
      severity = critical, evidence = ''verbs: [*]'', recommendation = ''Restrict the role'',
      confidence = 0.8, category = ''kubernetes-rbac''\<rparr>"

definition temporal_finding :: SecurityFinding where
  "temporal_finding =
     \<lparr>f_id = ''n-1'', tool = ''config-reader'', f_resource = ''nginx.conf'',
      title = ''Old TLS protocol'', description = ''no known exploit'', severity = low,
      evidence = ''ssl_protocols TLSv1;'', recommendation = ''Use TLSv1.2 or later'',
      confidence = 0.5, category = ''nginx-config''\<rparr>"

definition nginx_patch :: SecurityPatch where
  "nginx_patch =
     \<lparr>p_id = ''patch-1'', findingId = ''find-1'', resource = ''nginx.conf'', ptype = nginx,
      before = ''server { listen 80; }'', after = ''server { listen 80; server_tokens off; }'',
      diff = ''+ server_tokens off;'', assumptions = [], rollbackSteps = [],
      validationSteps = [], safetyNotes = ''Test'', applied = False\<rparr>"

definition docker_patch :: SecurityPatch where
  "docker_patch =
     \<lparr>p_id = ''patch-2'', findingId = ''find-2'', resource = ''Dockerfile'', ptype = docker,
      before = ''FROM node:latest'', after = ''FROM node:20'',
      diff = ''+ FROM node:20'', assumptions = [], rollbackSteps = [],
      validationSteps = [], safetyNotes = ''Test'', applied = False\<rparr>"

definition bare_run_patch :: SecurityPatch where
  "bare_run_patch =
     \<lparr>p_id = ''patch-3'', findingId = ''find-3'', resource = ''Dockerfile'', ptype = docker,
      before = ''FROM node:latest'', after = ''FROM node:20'' @ [CHR 0x0A] @ ''RUN'',
      diff = [], assumptions = [], rollbackSteps = [],
      validationSteps = [], safetyNotes = ''Test'', applied = False\<rparr>"

text \<open>
  The sample disks resolve a path by dropping a leading \<open>./\<close>. \<open>latin1_dockerfile\<close> is a
  Dockerfile whose comment holds the byte E9, the letter e with an acute accent in
  Latin-1, which is not well-formed UTF-8.
\<close>

definition sample_resolve :: "string \<Rightarrow> string" where
  "sample_resolve p = (if startsWith p ''./'' then drop 2 p else p)"

definition disk :: filesystem where
  "disk =
     \<lparr>files = [''nginx.conf'' \<mapsto> ''server { listen 80; }'', ''Dockerfile'' \<mapsto> ''FROM node:latest''],
      resolve = sample_resolve, write_ok = (\<lambda>p. True)\<rparr>"

definition disk_nginx_locked :: filesystem where
  "disk_nginx_locked =
     \<lparr>files = [''nginx.conf'' \<mapsto> ''server { listen 80; }'', ''Dockerfile'' \<mapsto> ''FROM node:latest''],
      resolve = sample_resolve, write_ok = (\<lambda>p. p \<noteq> ''nginx.conf'')\<rparr>"

definition latin1_dockerfile :: string where
  "latin1_dockerfile = ''# caf'' @ [CHR 0xE9, CHR 0x0A] @ ''FROM node:20'' @ [CHR 0x0A]"

definition disk_latin1 :: filesystem where
  "disk_latin1 =
     \<lparr>files = [''Dockerfile'' \<mapsto> latin1_dockerfile],
      resolve = sample_resolve, write_ok = (\<lambda>p. True)\<rparr>"

definition disk_with_history :: filesystem where
  "disk_with_history =
     \<lparr>files = [''.hardener/history.json'' \<mapsto> ''{}''],
      resolve = sample_resolve, write_ok = (\<lambda>p. True)\<rparr>"

definition history_patch :: SecurityPatch where
  "history_patch =
     \<lparr>p_id = ''patch-5'', findingId = ''find-5'', resource = ''./.hardener/history.json'',
      ptype = custom, before = ''{}'', after = ''{ }'', diff = [], assumptions = [],
      rollbackSteps = [], validationSteps = [], safetyNotes = ''Test'', applied = False\<rparr>"


definition apply_with_rollback :: OrchestratorOptions where
  "apply_with_rollback =
     \<lparr>target = ''./'', dryRun = False, apply_flag = True, enableRollback = True\<rparr>"

definition tab_user_patch :: SecurityPatch where
  "tab_user_patch =
     \<lparr>p_id = ''patch-4'', findingId = ''find-4'', resource = ''Dockerfile'', ptype = docker,
      before = ''FROM node:20'',
      after = ''FROM node:20'' @ [CHR 0x0A] @ ''USER'' @ [CHR 0x09] @ ''appuser'',
      diff = [], assumptions = [], rollbackSteps = [],
      validationSteps = [], safetyNotes = ''Test'', applied = False\<rparr>"

section \<open>Auxiliary function for the proofs about grouping\<close>

text \<open>
  \<open>firsts seen fs\<close> keeps, in order, each finding of \<open>fs\<close> whose group key is neither in
  \<open>seen\<close> nor the key of an earlier finding of \<open>fs\<close>. It is shown below to be what the loop
  of \<open>groupFindings\<close> appends to \<open>uniqueFindings\<close>.
\<close>

fun firsts :: "string set \<Rightarrow> SecurityFinding list \<Rightarrow> SecurityFinding list" where
  "firsts seen [] = []"
| "firsts seen (f # fs) =
     (if generateGroupKey f \<in> seen then firsts seen fs
      else f # firsts (insert (generateGroupKey f) seen) fs)"

section \<open>Grouping: the unique findings\<close>

lemma js_round_zero: "js_round 0 = 0" by code_simp
lemma js_round_half_percent: "js_round 50 = 50" by code_simp

lemma group_add_keys: "map fst (group_add gs k f) = map fst gs"
  by (induction gs) auto

lemma group_loop_unique: "snd (group_loop fs (gs, u)) = u @ firsts (set (map fst gs)) fs"
proof (induction fs arbitrary: gs u)
  case Nil
  show ?case by simp
next
  case (Cons f fs)
  show ?case
    by (simp add: Let_def Cons group_add_keys map_of_eq_None_iff)
qed

lemma firsts_keys:
  "generateGroupKey ` set (firsts seen fs) \<inter> seen = {} \<and> distinct (map generateGroupKey (firsts seen fs))"
proof (induction fs arbitrary: seen)
  case Nil
  show ?case by simp
next
  case (Cons f fs)
  from Cons[of seen] Cons[of "insert (generateGroupKey f) seen"] show ?case by auto
qed

lemma firsts_id:
  "distinct (map generateGroupKey fs) \<Longrightarrow> generateGroupKey ` set fs \<inter> seen = {} \<Longrightarrow> firsts seen fs = fs"
  by (induction fs arbitrary: seen) auto

lemma unique_eq: "uniqueFindings (groupFindings fs) = firsts {} fs"
  by (simp add: groupFindings_def Let_def split_beta group_loop_unique)

lemma dup_eq: "duplicateCount (groupFindings fs) = int (length fs) - int (length (firsts {} fs))"
  by (simp add: groupFindings_def Let_def split_beta group_loop_unique)

lemma noise_eq: "noiseReductionPercent (groupFindings fs) =
    (if length fs > 0 then js_round ((of_int (int (length fs) - int (length (firsts {} fs))) / of_nat (length fs)) * 100) else 0)"
  by (simp add: groupFindings_def Let_def split_beta group_loop_unique)

text \<open>
  C8. Grouping is idempotent: grouping the \<open>uniqueFindings\<close> of an earlier grouping gives
  the same list in the same order, with \<open>duplicateCount = 0\<close> and
  \<open>noiseReductionPercent = 0\<close>, for every list of findings.
\<close>

theorem groupFindings_idempotent:
  "uniqueFindings (groupFindings (uniqueFindings (groupFindings fs))) = uniqueFindings (groupFindings fs)
   \<and> duplicateCount (groupFindings (uniqueFindings (groupFindings fs))) = 0
   \<and> noiseReductionPercent (groupFindings (uniqueFindings (groupFindings fs))) = 0"
proof -
  have fixed: "firsts {} (firsts {} fs) = firsts {} fs"
    using firsts_keys[of "{}" fs] by (intro firsts_id) auto
  show ?thesis
    by (simp add: unique_eq dup_eq noise_eq fixed js_round_zero)
qed

text \<open>
  C7. Two findings that agree on tool, category, title and severity (whatever their
  resources) are one group: the unique findings are the first of the two alone, one
  duplicate is counted, and the noise reduction is 50 percent.
\<close>

theorem groupFindings_two_same_key:
  assumes "tool f2 = tool f1" and "category f2 = category f1" and "title f2 = title f1"
    and "severity f2 = severity f1"
  shows "uniqueFindings (groupFindings [f1, f2]) = [f1]
     \<and> duplicateCount (groupFindings [f1, f2]) = 1
     \<and> noiseReductionPercent (groupFindings [f1, f2]) = 50"
proof -
  have key: "generateGroupKey f2 = generateGroupKey f1"
    by (simp add: generateGroupKey_def assms)
  show ?thesis
    by (simp add: unique_eq dup_eq noise_eq key js_round_half_percent)
qed

theorem groupFindings_two_same_key_witness:
  "tool (sample_finding\<lparr>f_resource := ''b.conf''\<rparr>) = tool sample_finding
   \<and> category (sample_finding\<lparr>f_resource := ''b.conf''\<rparr>) = category sample_finding
   \<and> title (sample_finding\<lparr>f_resource := ''b.conf''\<rparr>) = title sample_finding
   \<and> severity (sample_finding\<lparr>f_resource := ''b.conf''\<rparr>) = severity sample_finding
   \<and> uniqueFindings (groupFindings [sample_finding, sample_finding\<lparr>f_resource := ''b.conf''\<rparr>]) = [sample_finding]
   \<and> duplicateCount (groupFindings [sample_finding, sample_finding\<lparr>f_resource := ''b.conf''\<rparr>]) = 1
   \<and> noiseReductionPercent (groupFindings [sample_finding, sample_finding\<lparr>f_resource := ''b.conf''\<rparr>]) = 50"
  using groupFindings_two_same_key[of "sample_finding\<lparr>f_resource := ''b.conf''\<rparr>" sample_finding]
  by simp

section \<open>Scoring: the order of the plan\<close>

lemma js_sort_eq: "js_sort (\<lambda>a b. f b - f a) xs = sort_key (\<lambda>x. - f x) xs"
proof (induction xs)
  case Nil show ?case by simp
next
  case (Cons x xs)
  have ins: "js_insert (\<lambda>a b. f b - f a) x ys = insort_key (\<lambda>x. - f x) x ys" for ys
    by (induction ys) auto
  show ?case using Cons by (simp add: ins)
qed

text \<open>
  C6. The plan is in descending order of \<open>overall\<close>, findings of equal \<open>overall\<close> keep
  their input order (for each score \<open>v\<close> the findings scoring \<open>v\<close> appear as in the input),
  and the plan holds exactly the scored input findings.
\<close>

theorem scoreFindings_sorted_stable:
  "sorted_wrt (\<lambda>a b. overall (riskScore a) \<ge> overall (riskScore b)) (scoreFindings fs)
   \<and> filter (\<lambda>p. overall (riskScore p) = v) (scoreFindings fs)
       = filter (\<lambda>p. overall (riskScore p) = v) (map prioritize fs)
   \<and> mset (scoreFindings fs) = mset (map prioritize fs)"
proof -
  let ?o = "\<lambda>p. overall (riskScore p)"
  have eq: "scoreFindings fs = sort_key (\<lambda>p. - ?o p) (map prioritize fs)"
    unfolding scoreFindings_def by (rule js_sort_eq)
  have "sorted (map (\<lambda>p. - ?o p) (scoreFindings fs))"
    unfolding eq by (rule sorted_sort_key)
  then have s: "sorted_wrt (\<lambda>a b. ?o a \<ge> ?o b) (scoreFindings fs)"
    by (simp add: sorted_wrt_map)
  have "filter (\<lambda>p. - ?o p = - v) (scoreFindings fs) = filter (\<lambda>p. - ?o p = - v) (map prioritize fs)"
    unfolding eq by (rule sort_key_stable)
  then have st: "filter (\<lambda>p. ?o p = v) (scoreFindings fs) = filter (\<lambda>p. ?o p = v) (map prioritize fs)"
    by simp
  have m: "mset (scoreFindings fs) = mset (map prioritize fs)"
    unfolding eq by simp
  from s st m show ?thesis by blast
qed

section \<open>Scoring: the sub-scores\<close>

text \<open>
  C4. The business-impact subtotal of \<open>impact_finding\<close> is capped at 10, its scope weight is
  1.2, and the \<open>businessImpact\<close> of the returned score is 12: the bound of 10 does not
  hold for the value attached to the score.
\<close>

theorem businessImpact_above_ten:
  "calculateBusinessImpact impact_finding = 10
   \<and> scope (calculateCVSSModifiers impact_finding) = 1.2
   \<and> businessImpact (scoreFind impact_finding) = 12"
  by code_simp

text \<open>
  C5. For a finding described as \<open>no known exploit\<close>, with confidence below 0.9 and a
  category that does not mention docker, the temporal score is 7 and not 4: the word
  \<open>exploit\<close> is tested first and adds 2.
\<close>

theorem no_known_exploit_scores_seven:
  "description temporal_finding = ''no known exploit''
   \<and> confidence temporal_finding < 0.9
   \<and> \<not> str_includes (toLowerCase (category temporal_finding)) ''docker''
   \<and> calculateTemporalScore temporal_finding = 7"
  by code_simp

section \<open>Validation of Dockerfiles\<close>

text \<open>
  C9. A Dockerfile whose second line is exactly \<open>RUN\<close> passes validation, and one whose
  \<open>USER\<close> keyword is followed by a tab and its argument fails it.
\<close>

theorem bare_run_passes_validation:
  "split_lines (after bare_run_patch) = [''FROM node:20'', ''RUN'']
   \<and> passed (validatePatch bare_run_patch)
   \<and> split_lines (after tab_user_patch) = [''FROM node:20'', ''USER'' @ [CHR 0x09] @ ''appuser'']
   \<and> \<not> passed (validatePatch tab_user_patch)"
  by code_simp

section \<open>Snapshot and rollback\<close>

lemma snapshot_entries_complete:
  "p \<in> set ps \<Longrightarrow> readFile fs (resource p) = Some c \<Longrightarrow>
   \<lparr>patchId = p_id p, e_resource = resource p, originalContent = c\<rparr> \<in> set (snapshot_entries fs ps)"
  by (induction ps) (auto split: option.splits)

lemma snapshot_entries_sound:
  "e \<in> set (snapshot_entries fs ps) \<Longrightarrow> readFile fs (e_resource e) = Some (originalContent e)"
  by (induction ps) (auto split: option.splits)


lemma createSnapshot_Inr:
  assumes "createSnapshot rt b fs sid ps = Inr (s, fs1)"
  shows "s = sid \<and> fs1 = fs\<lparr>files := (files fs)(resolve fs (snapshotFile b sid) \<mapsto>
           json_stringify rt \<lparr>s_id = sid, entries = snapshot_entries fs ps\<rparr>)\<rparr>"
  using assms
  by (auto simp: createSnapshot_def mkdir_def writeFile_def snapshotFile_def Let_def
           split: if_splits option.splits)

lemma writeFile_Some:
  "writeFile fs p c = Some fs' \<Longrightarrow>
   write_ok fs (resolve fs p) \<and> fs' = fs\<lparr>files := (files fs)(resolve fs p \<mapsto> c)\<rparr>"
  by (auto simp: writeFile_def split: if_splits)

lemma rollback_loop_resolve: "resolve (snd (rollback_loop fs es)) = resolve fs"
  by (induction es arbitrary: fs)
     (auto simp: writeFile_def split_beta split: option.splits if_splits)

lemma rollback_loop_files:
  "write_ok fs k \<Longrightarrow> \<forall>e\<in>set es. resolve fs (e_resource e) = k \<longrightarrow> originalContent e = c \<Longrightarrow>
   (\<exists>e\<in>set es. resolve fs (e_resource e) = k) \<or> files fs k = Some c \<Longrightarrow>
   files (snd (rollback_loop fs es)) k = Some c"
proof (induction es arbitrary: fs)
  case Nil
  then show ?case by simp
next
  case (Cons item rest)
  show ?case
  proof (cases "write_ok fs (resolve fs (e_resource item))")
    case True
    let ?fs1 = "fs\<lparr>files := (files fs)(resolve fs (e_resource item) \<mapsto> originalContent item)\<rparr>"
    have w: "writeFile fs (e_resource item) (originalContent item) = Some ?fs1"
      using True by (simp add: writeFile_def)
    have "files (snd (rollback_loop ?fs1 rest)) k = Some c"
    proof (rule Cons.IH)
      show "write_ok ?fs1 k" using Cons.prems(1) by simp
      show "\<forall>e\<in>set rest. resolve ?fs1 (e_resource e) = k \<longrightarrow> originalContent e = c"
        using Cons.prems(2) by simp
      show "(\<exists>e\<in>set rest. resolve ?fs1 (e_resource e) = k) \<or> files ?fs1 k = Some c"
        using Cons.prems(2,3) by auto
    qed
    then show ?thesis by (simp add: w split_beta)
  next
    case False
    have w: "writeFile fs (e_resource item) (originalContent item) = None"
      using False by (simp add: writeFile_def)
    have ne: "resolve fs (e_resource item) \<noteq> k" using False Cons.prems(1) by auto
    have "files (snd (rollback_loop fs rest)) k = Some c"
    proof (rule Cons.IH)
      show "write_ok fs k" by (rule Cons.prems(1))
      show "\<forall>e\<in>set rest. resolve fs (e_resource e) = k \<longrightarrow> originalContent e = c"
        using Cons.prems(2) by simp
      show "(\<exists>e\<in>set rest. resolve fs (e_resource e) = k) \<or> files fs k = Some c"
        using Cons.prems(3) ne by auto
    qed
    then show ?thesis by (simp add: w split_beta)
  qed
qed

lemma rollback_loop_result:
  "e \<in> set es \<Longrightarrow> write_ok fs (resolve fs (e_resource e)) \<Longrightarrow>
   \<lparr>r_patchId = patchId e, success = True, r_message = ''Rolled back '' @ e_resource e\<rparr>
     \<in> set (fst (rollback_loop fs es))"
proof (induction es arbitrary: fs)
  case Nil
  then show ?case by simp
next
  case (Cons item rest)
  show ?case
  proof (cases "write_ok fs (resolve fs (e_resource item))")
    case True
    then show ?thesis
      using Cons.prems
        Cons.IH[of "fs\<lparr>files := (files fs)(resolve fs (e_resource item) \<mapsto> originalContent item)\<rparr>"]
      by (auto simp: writeFile_def split_beta)
  next
    case False
    then show ?thesis using Cons.prems Cons.IH[of fs]
      by (auto simp: writeFile_def split_beta)
  qed
qed

lemma recordRollback_files:
  "k \<noteq> resolve fs (historyFile b) \<Longrightarrow> files (recordRollback rt b fs sid res) k = files fs k"
  by (auto simp: recordRollback_def mkdir_def writeFile_def Let_def split: option.splits if_splits)

text \<open>
  C3, as stated, fails, in two ways. A Dockerfile that is not well-formed UTF-8 is
  captured, overwritten and rolled back: the entry is reported as a success, and the file
  holds the bytes of the decoded text, with U+FFFD where the byte E9 was. The history log
  of the manager, captured under another spelling of its path, is rolled back with
  success and then holds the record of that rollback after its old content.
\<close>

theorem rollback_does_not_restore_bytes:
  "(case createSnapshot sample_runtime ''.hardener'' disk_latin1 ''0123456789abcdef'' [docker_patch] of
      Inl e \<Rightarrow> False
    | Inr (sid, fs1) \<Rightarrow>
        (case writeFile fs1 ''Dockerfile'' ''overwritten'' of
           None \<Rightarrow> False
         | Some fs2 \<Rightarrow>
             files disk_latin1 ''Dockerfile'' = Some latin1_dockerfile
             \<and> fst (rollback sample_runtime ''.hardener'' fs2 sid)
                 = [\<lparr>r_patchId = ''patch-2'', success = True,
                      r_message = ''Rolled back Dockerfile''\<rparr>]
             \<and> files (snd (rollback sample_runtime ''.hardener'' fs2 sid)) ''Dockerfile''
                 = Some (''# caf'' @ replacement_char @ [CHR 0x0A] @ ''FROM node:20'' @ [CHR 0x0A])
             \<and> files (snd (rollback sample_runtime ''.hardener'' fs2 sid)) ''Dockerfile''
                 \<noteq> Some latin1_dockerfile))
   \<and> (case createSnapshot sample_runtime ''.hardener'' disk_with_history ''0123456789abcdef''
             [history_patch] of
        Inl e \<Rightarrow> False
      | Inr (sid, fs1) \<Rightarrow>
          (case writeFile fs1 (resource history_patch) ''overwritten'' of
             None \<Rightarrow> False
           | Some fs2 \<Rightarrow>
               files disk_with_history ''.hardener/history.json'' = Some ''{}''
               \<and> snapshot_entries disk_with_history [history_patch]
                   = [\<lparr>patchId = ''patch-5'', e_resource = ''./.hardener/history.json'',
                        originalContent = ''{}''\<rparr>]
               \<and> fst (rollback sample_runtime ''.hardener'' fs2 sid)
                   = [\<lparr>r_patchId = ''patch-5'', success = True,
                        r_message = ''Rolled back ./.hardener/history.json''\<rparr>]
               \<and> files (snd (rollback sample_runtime ''.hardener'' fs2 sid)) ''.hardener/history.json''
                   \<noteq> Some ''{}''))"
  by code_simp

text \<open>
  C3, amended. Let \<open>createSnapshot\<close> return under a fresh snapshot id, and let a patch of
  the batch name a file whose bytes are well-formed UTF-8 and which is not the history log
  of the manager. Then the file is captured with those bytes, and if it is overwritten
  with any content and the snapshot document reads back as it was written, \<open>rollback\<close>
  leaves the file with exactly the bytes it had when the snapshot was taken and reports a
  success for the entry.
\<close>

theorem rollback_restores_valid_utf8:
  assumes snap: "createSnapshot rt baseDir fs snapshotId patches = Inr (sid, fs1)"
    and fresh: "files fs (resolve fs (snapshotFile baseDir snapshotId)) = None"
    and cap: "p \<in> set patches"
    and raw: "files fs (resolve fs (resource p)) = Some bytes"
    and valid: "utf8_sanitize bytes = bytes"
    and over: "writeFile fs1 (resource p) new = Some fs2"
    and codec: "json_parse rt (utf8_sanitize (json_stringify rt
                   \<lparr>s_id = snapshotId, entries = snapshot_entries fs patches\<rparr>))
                  = Some \<lparr>s_id = snapshotId, entries = snapshot_entries fs patches\<rparr>"
    and own: "resolve fs (resource p) \<noteq> resolve fs (historyFile baseDir)"
  shows "\<lparr>patchId = p_id p, e_resource = resource p, originalContent = bytes\<rparr>
            \<in> set (snapshot_entries fs patches)
     \<and> files (snd (rollback rt baseDir fs2 sid)) (resolve fs (resource p)) = Some bytes
     \<and> \<lparr>r_patchId = p_id p, success = True, r_message = ''Rolled back '' @ resource p\<rparr>
          \<in> set (fst (rollback rt baseDir fs2 sid))"
proof -
  let ?snap = "\<lparr>s_id = snapshotId, entries = snapshot_entries fs patches\<rparr>"
  let ?e = "\<lparr>patchId = p_id p, e_resource = resource p, originalContent = bytes\<rparr>"
  let ?k = "resolve fs (resource p)"
  let ?ks = "resolve fs (snapshotFile baseDir snapshotId)"
  from createSnapshot_Inr[OF snap] have sid: "sid = snapshotId"
    and fs1: "fs1 = fs\<lparr>files := (files fs)(?ks \<mapsto> json_stringify rt ?snap)\<rparr>"
    by simp_all
  from writeFile_Some[OF over] have wr: "write_ok fs1 (resolve fs1 (resource p))"
    and fs2: "fs2 = fs1\<lparr>files := (files fs1)(resolve fs1 (resource p) \<mapsto> new)\<rparr>"
    by simp_all
  have r2: "resolve fs2 = resolve fs" by (simp add: fs2 fs1)
  have ne: "?k \<noteq> ?ks" using fresh raw by auto
  have rd: "readFile fs (resource p) = Some bytes"
    by (simp add: readFile_def raw valid)
  have ent: "?e \<in> set (snapshot_entries fs patches)"
    by (rule snapshot_entries_complete[OF cap rd])
  have doc: "readFile fs2 (snapshotFile baseDir snapshotId)
      = Some (utf8_sanitize (json_stringify rt ?snap))"
    using ne by (simp add: fs2 fs1 readFile_def)
  have wr2: "write_ok fs2 ?k" using wr by (simp add: fs2 fs1)
  have same: "\<forall>e\<in>set (snapshot_entries fs patches).
      resolve fs2 (e_resource e) = ?k \<longrightarrow> originalContent e = bytes"
  proof (intro ballI impI)
    fix e assume e: "e \<in> set (snapshot_entries fs patches)" and k: "resolve fs2 (e_resource e) = ?k"
    from snapshot_entries_sound[OF e] k show "originalContent e = bytes"
      by (simp add: readFile_def r2 raw valid)
  qed
  have ex: "(\<exists>e\<in>set (snapshot_entries fs patches). resolve fs2 (e_resource e) = ?k)
      \<or> files fs2 ?k = Some bytes"
    using ent by (intro disjI1 bexI[of _ ?e]) (simp_all add: r2)
  have loop_files: "files (snd (rollback_loop fs2 (snapshot_entries fs patches))) ?k = Some bytes"
    by (rule rollback_loop_files[OF wr2 same ex])
  have loop_res: "\<lparr>r_patchId = p_id p, success = True, r_message = ''Rolled back '' @ resource p\<rparr>
      \<in> set (fst (rollback_loop fs2 (snapshot_entries fs patches)))"
    using rollback_loop_result[OF ent, of fs2] wr2 by (simp add: r2)
  have rb: "rollback rt baseDir fs2 sid =
      (fst (rollback_loop fs2 (snapshot_entries fs patches)),
       recordRollback rt baseDir (snd (rollback_loop fs2 (snapshot_entries fs patches))) snapshotId
         (fst (rollback_loop fs2 (snapshot_entries fs patches))))"
    by (simp add: rollback_def sid doc codec split_beta)
  have kh: "?k \<noteq> resolve (snd (rollback_loop fs2 (snapshot_entries fs patches))) (historyFile baseDir)"
    using own by (simp add: rollback_loop_resolve r2)
  show ?thesis
    using ent loop_files loop_res
    by (simp add: rb recordRollback_files[OF kh])
qed

theorem rollback_restores_valid_utf8_witness:
  "(case createSnapshot sample_runtime ''.hardener'' disk ''0123456789abcdef'' [nginx_patch] of
      Inl e \<Rightarrow> False
    | Inr (sid, fs1) \<Rightarrow>
        (case writeFile fs1 ''nginx.conf'' ''overwritten'' of
           None \<Rightarrow> False
         | Some fs2 \<Rightarrow>
             files disk ''nginx.conf'' = Some ''server { listen 80; }''
             \<and> utf8_sanitize ''server { listen 80; }'' = ''server { listen 80; }''
             \<and> files fs2 ''nginx.conf'' = Some ''overwritten''
             \<and> files (snd (rollback sample_runtime ''.hardener'' fs2 sid)) ''nginx.conf''
                 = Some ''server { listen 80; }''
             \<and> \<lparr>r_patchId = ''patch-1'', success = True,
                  r_message = ''Rolled back '' @ ''nginx.conf''\<rparr>
                  \<in> set (fst (rollback sample_runtime ''.hardener'' fs2 sid))))"
proof -
  have "case createSnapshot sample_runtime ''.hardener'' disk ''0123456789abcdef'' [nginx_patch] of
      Inl e \<Rightarrow> False
    | Inr (sid, fs1) \<Rightarrow>
        (case writeFile fs1 ''nginx.conf'' ''overwritten'' of None \<Rightarrow> False | Some fs2 \<Rightarrow> True)"
    by code_simp
  then obtain sid fs1 fs2 where
    h1: "createSnapshot sample_runtime ''.hardener'' disk ''0123456789abcdef'' [nginx_patch] = Inr (sid, fs1)"
    and h2: "writeFile fs1 ''nginx.conf'' ''overwritten'' = Some fs2"
    by (auto split: sum.splits option.splits)
  have fresh: "files disk (resolve disk (snapshotFile ''.hardener'' ''0123456789abcdef'')) = None"
    by code_simp
  have cap: "nginx_patch \<in> set [nginx_patch]" by simp
  have ids: "p_id nginx_patch = ''patch-1''" "resource nginx_patch = ''nginx.conf''"
    by (simp_all add: nginx_patch_def)
  have rs: "resolve disk ''nginx.conf'' = ''nginx.conf''" by code_simp
  have raw: "files disk (resolve disk (resource nginx_patch)) = Some ''server { listen 80; }''"
    by code_simp
  have valid: "utf8_sanitize ''server { listen 80; }'' = ''server { listen 80; }''"
    by code_simp
  have over: "writeFile fs1 (resource nginx_patch) ''overwritten'' = Some fs2"
    using h2 by (simp add: ids)
  have codec: "json_parse sample_runtime (utf8_sanitize (json_stringify sample_runtime
        \<lparr>s_id = ''0123456789abcdef'', entries = snapshot_entries disk [nginx_patch]\<rparr>))
      = Some \<lparr>s_id = ''0123456789abcdef'', entries = snapshot_entries disk [nginx_patch]\<rparr>"
    by code_simp
  have own: "resolve disk (resource nginx_patch) \<noteq> resolve disk (historyFile ''.hardener'')"
    by code_simp
  have fs2r: "resolve fs2 = resolve disk" "files fs2 (resolve disk ''nginx.conf'') = Some ''overwritten''"
    using createSnapshot_Inr[OF h1] writeFile_Some[OF h2] by auto
  from rollback_restores_valid_utf8[OF h1 fresh cap raw valid over codec own] raw valid fs2r
  show ?thesis by (simp add: h1 h2 ids rs)
qed

section \<open>Steps 3 to 6 of a run\<close>








text \<open>
  The apply step sets \<open>applied\<close> on a prefix of the batch only, and returns true exactly
  when the prefix is the whole batch.
\<close>

lemma applyPatches_prefix:
  "\<exists>k\<le>length ps.
     fst (snd (snd (applyPatches fs ps))) = map (\<lambda>p. p\<lparr>applied := True\<rparr>) (take k ps) @ drop k ps
     \<and> (fst (applyPatches fs ps) \<longleftrightarrow> k = length ps)"
proof (induction ps arbitrary: fs)
  case Nil
  show ?case by simp
next
  case (Cons p ps)
  show ?case
  proof (cases "writeFile fs (resource p) (after p)")
    case None
    then show ?thesis by (intro exI[of _ 0]) simp
  next
    case (Some fs1)
    from Cons[of fs1] obtain k where k: "k \<le> length ps"
      and a: "fst (snd (snd (applyPatches fs1 ps)))
                = map (\<lambda>p. p\<lparr>applied := True\<rparr>) (take k ps) @ drop k ps"
      and c: "fst (applyPatches fs1 ps) \<longleftrightarrow> k = length ps"
      by blast
    show ?thesis
      using k a c Some by (intro exI[of _ "Suc k"]) (simp add: split_beta)
  qed
qed

text \<open>
  C2. The first write of the batch fails: \<open>applyPatches\<close> returns false and leaves the
  later patch unwritten and both flags unset, yet the run goes on to print
  \<open>Applied 2 patches\<close>, triggers no rollback and returns its report, in which only the
  count of patched files tells that nothing was applied.
\<close>

theorem apply_failure_not_reported:
  "(case applyPatches disk_nginx_locked [nginx_patch, docker_patch] of
      (ok, fs', patches', warned) \<Rightarrow>
        ok = False \<and> map applied patches' = [False, False]
        \<and> readFile fs' ''Dockerfile'' = Some ''FROM node:latest'')
   \<and> (case harden sample_runtime apply_with_rollback ''run-1'' ''0123456789abcdef''
             disk_nginx_locked [sample_finding] [nginx_patch, docker_patch] of
        Inl e \<Rightarrow> False
      | Inr (rep, fs', events) \<Rightarrow>
          events = [SnapshotLog ''0123456789abcdef'', ApplyFailedWarn ''patch-1'', AppliedLog 2]
          \<and> rollbackResults rep = []
          \<and> map applied (r_patches rep) = [False, False]
          \<and> patchedCount (statistics rep) = 0)"
  by code_simp

text \<open>
  C10. With an empty patch list the pass rate of step 4 is \<open>0 / 0\<close>, which is not below
  1, so a run that returns has not triggered the rollback, reports no rollback results, and
  reports a validation pass rate of 1 in its statistics, whatever the options.
\<close>

theorem harden_without_patches:
  assumes "harden rt options rid rnd fs findings [] = Inr (rep, fs', events)"
  shows "js_ratio (length (filter passed (validatePatches []))) (length (validatePatches [])) = NaN
     \<and> \<not> js_less NaN 1.0
     \<and> RollbackTriggeredLog \<notin> set events
     \<and> rollbackResults rep = []
     \<and> validationPassRate (statistics rep) = Num 1"
  using assms
  by (auto simp: harden_def apply_stage_def validatePatches_def js_ratio_def computeStatistics_def
                 Let_def split: if_splits sum.splits prod.splits)

theorem harden_without_patches_witness:
  "(case harden sample_runtime apply_with_rollback ''run-1'' ''0123456789abcdef'' disk [sample_finding] [] of
      Inl e \<Rightarrow> False
    | Inr (rep, fs', events) \<Rightarrow>
        RollbackTriggeredLog \<notin> set events \<and> rollbackResults rep = []
        \<and> validationPassRate (statistics rep) = Num 1)"
proof -
  have "case harden sample_runtime apply_with_rollback ''run-1'' ''0123456789abcdef'' disk [sample_finding] [] of
      Inl e \<Rightarrow> False | Inr v \<Rightarrow> True"
    by code_simp
  then obtain rep fs' events where
    h: "harden sample_runtime apply_with_rollback ''run-1'' ''0123456789abcdef'' disk [sample_finding] [] = Inr (rep, fs', events)"
    by (auto split: sum.splits)
  from harden_without_patches[OF h] show ?thesis by (simp add: h)
qed

end
